theory Spec2Isabelle
  imports Complex_Main "HOL-Library.Char_ord" "HOL-Library.List_Lexorder"
begin

section \<open>Values, errors and library functions\<close>

text \<open>
  The store of \<open>app.py\<close> is the class \<open>WorkingMarketDB\<close>: five SQLite tables and the
  methods that read and write them. The tables are modelled as lists of rows in
  insertion (rowid) order, every method as a function from the database to its result
  and the database it leaves behind.

  Python values that reach the store untyped (\<open>result_data: Any\<close>, the values of
  \<open>**kwargs\<close> and of an event dictionary) are the scalars below.
\<close>

datatype py_value = PyNone | PyBool bool | PyInt int | PyStr string

datatype error = ZeroDivisionError | ValueError | IntegrityError | TypeError

text \<open>
  Timestamps are seconds of Unix time. SQLite renders \<open>datetime(...)\<close> and
  \<open>CURRENT_TIMESTAMP\<close> as the text \<open>YYYY-MM-DD HH:MM:SS\<close> and compares such texts
  as strings, which orders them as the seconds they denote.
\<close>

type_synonym timestamp = int

text \<open>
  \<open>hashlib.md5(...).hexdigest()\<close> and \<open>json.dumps(..., sort_keys=...)\<close> are library
  functions; they are parameters of the model. A byte string and a text are both a
  \<open>string\<close>, so \<open>.encode()\<close> is the identity.
\<close>

record lib =
  md5_hexdigest :: "string \<Rightarrow> string"
  json_dumps :: "bool \<Rightarrow> (string \<times> py_value) list \<Rightarrow> string"

text \<open>Python's \<open>str\<close> on the scalars.\<close>

fun str_nat :: "nat \<Rightarrow> string" where
  "str_nat n =
     (if n < 10 then [''0123456789'' ! n]
      else str_nat (n div 10) @ [''0123456789'' ! (n mod 10)])"

declare str_nat.simps [simp del]

fun py_str :: "py_value \<Rightarrow> string" where
  "py_str PyNone = ''None''"
| "py_str (PyBool b) = (if b then ''True'' else ''False'')"
| "py_str (PyInt i) = (if i < 0 then ''-'' @ str_nat (nat (- i)) else str_nat (nat i))"
| "py_str (PyStr s) = s"

section \<open>The schema\<close>

record market_cache_row =
  mc_id :: int
  mc_market_name :: string
  mc_query_type :: string
  mc_query_hash :: string
  mc_result_data :: string
  mc_created_at :: timestamp
  mc_expires_at :: "timestamp option"
  mc_source :: string

text \<open>
  \<open>openai_file_ids\<close> holds \<open>json.dumps\<close> of a list of strings and is read back with
  \<open>json.loads\<close>; the column is modelled as the list itself.
\<close>

record pdf_history_row =
  ph_id :: int
  ph_file_name :: string
  ph_file_hash :: string
  ph_file_size :: int
  ph_total_pages :: int
  ph_chunks_count :: int
  ph_openai_file_ids :: "string list"
  ph_processed_at :: timestamp
  ph_status :: string

text \<open>
  \<open>cost_estimate\<close> is a Python float (IEEE 754 binary64). The model keeps the exact
  rational value of the expression that computes it; no theorem below depends on it.
\<close>

record pdf_qa_row =
  qa_id :: int
  qa_pdf_history_id :: int
  qa_question :: string
  qa_answer :: string
  qa_query_tokens :: int
  qa_response_tokens :: int
  qa_cost_estimate :: rat
  qa_created_at :: timestamp

record ma_searches_row =
  ma_id :: int
  ma_market_name :: string
  ma_timeframe :: string
  ma_result_data :: string
  ma_deals_count :: int
  ma_created_at :: timestamp

record usage_analytics_row =
  ua_id :: int
  ua_event_type :: string
  ua_event_data :: "string option"
  ua_session_id :: "string option"
  ua_created_at :: timestamp

text \<open>
  Every table has \<open>id INTEGER PRIMARY KEY AUTOINCREMENT\<close>: SQLite keeps the largest id
  a table ever held (\<open>sqlite_sequence\<close>) and gives a new row the next one, also after
  rows were deleted. The \<open>_seq\<close> fields are those counters.
\<close>

record db =
  market_cache :: "market_cache_row list"
  market_cache_seq :: int
  pdf_history :: "pdf_history_row list"
  pdf_history_seq :: int
  pdf_qa :: "pdf_qa_row list"
  pdf_qa_seq :: int
  ma_searches :: "ma_searches_row list"
  ma_searches_seq :: int
  usage_analytics :: "usage_analytics_row list"
  usage_analytics_seq :: int

text \<open>\<open>init_database\<close> on a new file: the five tables exist and are empty.\<close>

definition init_database :: db where
  "init_database =
     \<lparr>market_cache = [], market_cache_seq = 0,
      pdf_history = [], pdf_history_seq = 0,
      pdf_qa = [], pdf_qa_seq = 0,
      ma_searches = [], ma_searches_seq = 0,
      usage_analytics = [], usage_analytics_seq = 0\<rparr>"

text \<open>
  \<open>sqlite3.connect\<close> opens a connection on which \<open>PRAGMA foreign_keys\<close> is off, the
  default of SQLite, and no statement of \<open>app.py\<close> turns it on. A declared
  \<open>FOREIGN KEY\<close> is checked on insert only when the pragma is on.
\<close>

definition connect_foreign_keys :: bool where
  "connect_foreign_keys = False"

section \<open>Cache methods\<close>

definition generate_query_hash ::
  "lib \<Rightarrow> string \<Rightarrow> string \<Rightarrow> (string \<times> py_value) list \<Rightarrow> string" where
  "generate_query_hash L market_name query_type kwargs =
     md5_hexdigest L (market_name @ '':'' @ query_type @ '':'' @ json_dumps L True kwargs)"

text \<open>
  \<open>datetime('now', '+{} hours'.format(expire_hours))\<close>. For a negative number the
  modifier reads \<open>+-5 hours\<close>, which SQLite does not parse, and a date past
  9999-12-31 23:59:59 (Unix time 253402300799) cannot be rendered: both give NULL.
\<close>

definition sqlite_max_datetime :: timestamp where
  "sqlite_max_datetime = 253402300799"

definition datetime_plus_hours :: "timestamp \<Rightarrow> int \<Rightarrow> timestamp option" where
  "datetime_plus_hours now h =
     (if h < 0 then None
      else if now + 3600 * h \<le> sqlite_max_datetime then Some (now + 3600 * h)
      else None)"

text \<open>
  The row filter of \<open>get_cached_result\<close>:
  \<open>expires_at IS NULL OR expires_at > datetime('now')\<close>.
\<close>

definition live :: "timestamp \<Rightarrow> market_cache_row \<Rightarrow> bool" where
  "live now r = (case mc_expires_at r of None \<Rightarrow> True | Some e \<Rightarrow> e > now)"

record cached_result =
  data :: string
  cached_at :: timestamp
  expires_at :: "timestamp option"

text \<open>
  \<open>get_cached_result\<close> runs one SELECT and returns \<open>fetchone()\<close> as a dictionary, or
  \<open>None\<close>. The second component is the database after the call.
\<close>

definition get_cached_result ::
  "lib \<Rightarrow> timestamp \<Rightarrow> string \<Rightarrow> string \<Rightarrow> (string \<times> py_value) list \<Rightarrow> db
     \<Rightarrow> cached_result option \<times> db" where
  "get_cached_result L now market_name query_type kwargs d =
     (let query_hash = generate_query_hash L market_name query_type kwargs
      in (case find (\<lambda>r. mc_query_hash r = query_hash \<and> live now r) (market_cache d) of
            None \<Rightarrow> None
          | Some row \<Rightarrow>
              Some \<lparr>data = mc_result_data row, cached_at = mc_created_at row,
                    expires_at = mc_expires_at row\<rparr>,
          d))"

text \<open>
  \<open>cache_result\<close>: \<open>INSERT OR REPLACE\<close> on a table whose \<open>query_hash\<close> is \<open>UNIQUE\<close>
  deletes the rows that hold the new hash and inserts the new row under a new id.
  \<open>source\<close> and \<open>expire_hours\<close> are \<open>None\<close> when the caller leaves the argument out;
  the defaults of the signature apply then.
\<close>

definition cache_result ::
  "lib \<Rightarrow> timestamp \<Rightarrow> string \<Rightarrow> string \<Rightarrow> py_value \<Rightarrow> string option \<Rightarrow> int option
     \<Rightarrow> (string \<times> py_value) list \<Rightarrow> db \<Rightarrow> db" where
  "cache_result L now market_name query_type result_data source expire_hours kwargs d =
     (let query_hash = generate_query_hash L market_name query_type kwargs;
          source' = (case source of None \<Rightarrow> ''openai'' | Some s \<Rightarrow> s);
          expire_hours' = (case expire_hours of None \<Rightarrow> 24 | Some h \<Rightarrow> h);
          new_id = market_cache_seq d + 1;
          row = \<lparr>mc_id = new_id, mc_market_name = market_name,
                 mc_query_type = query_type, mc_query_hash = query_hash,
                 mc_result_data = py_str result_data, mc_created_at = now,
                 mc_expires_at = datetime_plus_hours now expire_hours',
                 mc_source = source'\<rparr>
      in d\<lparr>market_cache :=
              filter (\<lambda>r. mc_query_hash r \<noteq> query_hash) (market_cache d) @ [row],
           market_cache_seq := new_id\<rparr>)"

text \<open>
  A call passes the three positional arguments, \<open>source\<close> and \<open>expire_hours\<close> by
  keyword or not at all, and a parameter mapping as \<open>**params\<close>. Python binds a key
  of the mapping that names a parameter to that parameter: it raises \<open>TypeError\<close>
  (multiple values) when the parameter already has an argument, and only the other keys
  reach \<open>**kwargs\<close>. The outcome of binding one of the two optional parameters:
\<close>

datatype 'a binding = Bound "'a option" | Multiple_values | Outside_annotation

fun str_value :: "py_value \<Rightarrow> string option" where
  "str_value (PyStr s) = Some s"
| "str_value v = None"

fun int_value :: "py_value \<Rightarrow> int option" where
  "int_value (PyInt i) = Some i"
| "int_value v = None"

definition bind_keyword ::
  "(py_value \<Rightarrow> 'a option) \<Rightarrow> 'a option \<Rightarrow> py_value option \<Rightarrow> 'a binding" where
  "bind_keyword of_value given from_params =
     (case (given, from_params) of
        (Some a, Some v) \<Rightarrow> Multiple_values
      | (Some a, None) \<Rightarrow> Bound (Some a)
      | (None, None) \<Rightarrow> Bound None
      | (None, Some v) \<Rightarrow>
          (case of_value v of Some a \<Rightarrow> Bound (Some a) | None \<Rightarrow> Outside_annotation))"

text \<open>
  \<open>db.cache_result(market_name, query_type, result_data, [source=...],
  [expire_hours=...], **params)\<close>. The result is \<open>None\<close> where the mapping binds
  \<open>source\<close> to a value that is no \<open>str\<close> or \<open>expire_hours\<close> to one that is no \<open>int\<close>:
  the annotations of the signature exclude such calls, and they are not covered.
\<close>

definition call_cache_result ::
  "lib \<Rightarrow> timestamp \<Rightarrow> string \<Rightarrow> string \<Rightarrow> py_value \<Rightarrow> string option \<Rightarrow> int option
     \<Rightarrow> (string \<times> py_value) list \<Rightarrow> db \<Rightarrow> (error + db) option" where
  "call_cache_result L now market_name query_type result_data source expire_hours params d =
     (let kwargs = filter (\<lambda>kv. fst kv \<noteq> ''source'' \<and> fst kv \<noteq> ''expire_hours'') params
      in if list_ex (\<lambda>k. k \<in> fst ` set params)
              [''self'', ''market_name'', ''query_type'', ''result_data'']
         then Some (Inl TypeError)
         else (case (bind_keyword str_value source (map_of params ''source''),
                     bind_keyword int_value expire_hours (map_of params ''expire_hours'')) of
                 (Multiple_values, b) \<Rightarrow> Some (Inl TypeError)
               | (a, Multiple_values) \<Rightarrow> Some (Inl TypeError)
               | (Bound source', Bound expire_hours') \<Rightarrow>
                   Some (Inr (cache_result L now market_name query_type result_data
                                source' expire_hours' kwargs d))
               | (a, b) \<Rightarrow> None))"

text \<open>
  \<open>db.get_cached_result(market_name, query_type, **params)\<close>: every key of the mapping
  but the names of the positional parameters reaches \<open>**kwargs\<close>.
\<close>

definition call_get_cached_result ::
  "lib \<Rightarrow> timestamp \<Rightarrow> string \<Rightarrow> string \<Rightarrow> (string \<times> py_value) list \<Rightarrow> db
     \<Rightarrow> error + (cached_result option \<times> db)" where
  "call_get_cached_result L now market_name query_type params d =
     (if list_ex (\<lambda>k. k \<in> fst ` set params) [''self'', ''market_name'', ''query_type'']
      then Inl TypeError
      else Inr (get_cached_result L now market_name query_type params d))"

text \<open>
  \<open>cleanup_expired_cache\<close>: \<open>DELETE FROM market_cache WHERE expires_at < datetime('now')\<close>.
  The comparison is NULL, hence not true, on a row whose \<open>expires_at\<close> is NULL.
\<close>

definition in_past :: "timestamp \<Rightarrow> market_cache_row \<Rightarrow> bool" where
  "in_past now r = (case mc_expires_at r of None \<Rightarrow> False | Some e \<Rightarrow> e < now)"

definition cleanup_expired_cache :: "timestamp \<Rightarrow> db \<Rightarrow> db" where
  "cleanup_expired_cache now d =
     d\<lparr>market_cache := filter (\<lambda>r. \<not> in_past now r) (market_cache d)\<rparr>"

section \<open>PDF methods\<close>

definition save_pdf_processing ::
  "lib \<Rightarrow> timestamp \<Rightarrow> string \<Rightarrow> string \<Rightarrow> int \<Rightarrow> string list \<Rightarrow> db \<Rightarrow> int \<times> db" where
  "save_pdf_processing L now file_name file_content total_pages openai_file_ids d =
     (let file_hash = md5_hexdigest L file_content;
          new_id = pdf_history_seq d + 1;
          row = \<lparr>ph_id = new_id, ph_file_name = file_name, ph_file_hash = file_hash,
                 ph_file_size = int (length file_content), ph_total_pages = total_pages,
                 ph_chunks_count = int (length openai_file_ids),
                 ph_openai_file_ids = openai_file_ids, ph_processed_at = now,
                 ph_status = ''processed''\<rparr>
      in (new_id, d\<lparr>pdf_history := pdf_history d @ [row], pdf_history_seq := new_id\<rparr>))"

text \<open>
  \<open>ORDER BY processed_at DESC LIMIT 1\<close>: a row whose \<open>processed_at\<close> no other row
  exceeds. Among rows of equal \<open>processed_at\<close> SQL leaves the choice open; SQLite
  returns the one inserted first, and so does \<open>latest\<close>.
\<close>

fun latest :: "pdf_history_row list \<Rightarrow> pdf_history_row option" where
  "latest [] = None"
| "latest (r # rs) =
     (case latest rs of
        None \<Rightarrow> Some r
      | Some r' \<Rightarrow> if ph_processed_at r' > ph_processed_at r then Some r' else Some r)"

record pdf_info =
  pi_id :: int
  pi_file_name :: string
  pi_total_pages :: int
  pi_chunks_count :: int
  pi_openai_file_ids :: "string list"
  pi_processed_at :: timestamp

definition processed_with_hash :: "string \<Rightarrow> pdf_history_row \<Rightarrow> bool" where
  "processed_with_hash file_hash r =
     (ph_file_hash r = file_hash \<and> ph_status r = ''processed'')"

definition get_pdf_by_hash :: "string \<Rightarrow> db \<Rightarrow> pdf_info option" where
  "get_pdf_by_hash file_hash d =
     (case latest (filter (processed_with_hash file_hash) (pdf_history d)) of
        None \<Rightarrow> None
      | Some row \<Rightarrow>
          Some \<lparr>pi_id = ph_id row, pi_file_name = ph_file_name row,
                pi_total_pages = ph_total_pages row, pi_chunks_count = ph_chunks_count row,
                pi_openai_file_ids = ph_openai_file_ids row,
                pi_processed_at = ph_processed_at row\<rparr>)"

text \<open>
  \<open>save_pdf_qa\<close>. \<open>query_tokens\<close> and \<open>response_tokens\<close> default to 0. The insert is
  refused only on a connection that checks foreign keys.
\<close>

definition save_pdf_qa ::
  "timestamp \<Rightarrow> int \<Rightarrow> string \<Rightarrow> string \<Rightarrow> int option \<Rightarrow> int option \<Rightarrow> db
     \<Rightarrow> error + (int \<times> db)" where
  "save_pdf_qa now pdf_history_id question answer query_tokens response_tokens d =
     (let query_tokens' = (case query_tokens of None \<Rightarrow> 0 | Some n \<Rightarrow> n);
          response_tokens' = (case response_tokens of None \<Rightarrow> 0 | Some n \<Rightarrow> n);
          cost_estimate =
            (of_int query_tokens' * (1 / 100) + of_int response_tokens' * (3 / 100)) / 1000;
          new_id = pdf_qa_seq d + 1;
          row = \<lparr>qa_id = new_id, qa_pdf_history_id = pdf_history_id,
                 qa_question = question, qa_answer = answer,
                 qa_query_tokens = query_tokens', qa_response_tokens = response_tokens',
                 qa_cost_estimate = cost_estimate, qa_created_at = now\<rparr>
      in if connect_foreign_keys \<and> pdf_history_id \<notin> ph_id ` set (pdf_history d)
         then Inl IntegrityError
         else Inr (new_id, d\<lparr>pdf_qa := pdf_qa d @ [row], pdf_qa_seq := new_id\<rparr>))"

section \<open>M\&A and analytics methods\<close>

definition save_ma_search ::
  "timestamp \<Rightarrow> string \<Rightarrow> string \<Rightarrow> string \<Rightarrow> int option \<Rightarrow> db \<Rightarrow> db" where
  "save_ma_search now market_name timeframe result_data deals_count d =
     (let new_id = ma_searches_seq d + 1;
          row = \<lparr>ma_id = new_id, ma_market_name = market_name, ma_timeframe = timeframe,
                 ma_result_data = result_data,
                 ma_deals_count = (case deals_count of None \<Rightarrow> 0 | Some n \<Rightarrow> n),
                 ma_created_at = now\<rparr>
      in d\<lparr>ma_searches := ma_searches d @ [row], ma_searches_seq := new_id\<rparr>)"

text \<open>
  \<open>log_event\<close> stores \<open>json.dumps(event_data) if event_data else None\<close>: an absent and
  an empty dictionary are both stored as NULL.
\<close>

definition log_event ::
  "lib \<Rightarrow> timestamp \<Rightarrow> string \<Rightarrow> (string \<times> py_value) list option \<Rightarrow> string option
     \<Rightarrow> db \<Rightarrow> db" where
  "log_event L now event_type event_data session_id d =
     (let new_id = usage_analytics_seq d + 1;
          row = \<lparr>ua_id = new_id, ua_event_type = event_type,
                 ua_event_data =
                   (case event_data of
                      None \<Rightarrow> None
                    | Some [] \<Rightarrow> None
                    | Some (kv # kvs) \<Rightarrow> Some (json_dumps L False (kv # kvs))),
                 ua_session_id = session_id, ua_created_at = now\<rparr>
      in d\<lparr>usage_analytics := usage_analytics d @ [row],
           usage_analytics_seq := new_id\<rparr>)"

section \<open>Utility methods and bulk deletion\<close>

text \<open>
  \<open>get_database_stats\<close>: \<open>SELECT COUNT(*)\<close> of each of the five tables. The size of
  the database file, which the method also reports, is not part of the model.
\<close>

record database_stats =
  market_cache_count :: nat
  pdf_history_count :: nat
  pdf_qa_count :: nat
  ma_searches_count :: nat
  usage_analytics_count :: nat

definition get_database_stats :: "db \<Rightarrow> database_stats" where
  "get_database_stats d =
     \<lparr>market_cache_count = length (market_cache d),
      pdf_history_count = length (pdf_history d),
      pdf_qa_count = length (pdf_qa d),
      ma_searches_count = length (ma_searches d),
      usage_analytics_count = length (usage_analytics d)\<rparr>"

text \<open>
  The bulk delete of the history tab. The select box offers four scopes; the statements
  each one runs are those of its branch.
\<close>

datatype delete_option = All_Markets | All_PDFs | All_MA | Everything

fun bulk_delete :: "delete_option \<Rightarrow> db \<Rightarrow> db" where
  "bulk_delete All_Markets d = d\<lparr>market_cache := []\<rparr>"
| "bulk_delete All_PDFs d = d\<lparr>pdf_qa := [], pdf_history := []\<rparr>"
| "bulk_delete All_MA d = d\<lparr>ma_searches := []\<rparr>"
| "bulk_delete Everything d =
     d\<lparr>market_cache := [], pdf_qa := [], pdf_history := [], ma_searches := []\<rparr>"

text \<open>
  The Execute button: the first click on a scope arms \<open>confirm_bulk_<scope>\<close> in the
  session state, the next one runs the deletion and disarms it.
\<close>

definition bulk_delete_execute ::
  "delete_option \<Rightarrow> (delete_option \<Rightarrow> bool) \<Rightarrow> db \<Rightarrow> (delete_option \<Rightarrow> bool) \<times> db" where
  "bulk_delete_execute delete_option confirm d =
     (if confirm delete_option then (confirm(delete_option := False), bulk_delete delete_option d)
      else (confirm(delete_option := True), d))"

text \<open>
  The RESET ALL DATA button of the administration tab, armed by \<open>confirm_reset\<close>.
  \<open>VACUUM\<close> changes no row.
\<close>

definition reset_all_data :: "bool \<Rightarrow> db \<Rightarrow> bool \<times> db" where
  "reset_all_data confirm_reset d =
     (if confirm_reset
      then (False, d\<lparr>market_cache := [], pdf_qa := [], pdf_history := [],
                      ma_searches := [], usage_analytics := []\<rparr>)
      else (True, d))"

section \<open>Ingestion with deduplication\<close>

record chunk =
  ch_file_id :: string
  ch_start :: int
  ch_end :: int

record uploaded_file =
  uf_name :: string
  uf_content :: string

text \<open>
  The loop \<open>for i, file_id in enumerate(openai_file_ids)\<close>, the same in
  \<open>process_pdf_with_deduplication\<close> and in \<open>restore_pdf_session_complete\<close>.
\<close>

definition chunk_ranges :: "int \<Rightarrow> int \<Rightarrow> string list \<Rightarrow> chunk list" where
  "chunk_ranges pages_per_chunk total_pages openai_file_ids =
     map (\<lambda>(i, file_id).
            \<lparr>ch_file_id = file_id,
             ch_start = int i * pages_per_chunk + 1,
             ch_end = min ((int i + 1) * pages_per_chunk) total_pages\<rparr>)
       (enumerate 0 openai_file_ids)"

text \<open>
  \<open>process_pdf_with_deduplication\<close>. \<open>split_result\<close> is what
  \<open>split_and_upload_pdf_chunks\<close> would return for the file; it is used only on a miss.
  The result is the chunk list, the \<open>current_pdf_id\<close> left in the session state and the
  database. \<open>//\<close> by a chunk count of 0 and \<open>max\<close> of no chunk raise.
\<close>

definition process_pdf_with_deduplication ::
  "lib \<Rightarrow> timestamp \<Rightarrow> string \<Rightarrow> chunk list \<Rightarrow> uploaded_file \<Rightarrow> db
     \<Rightarrow> error + (chunk list \<times> int \<times> db)" where
  "process_pdf_with_deduplication L now session_id split_result uploaded d =
     (let file_content = uf_content uploaded;
          file_hash = md5_hexdigest L file_content
      in case get_pdf_by_hash file_hash d of
           Some existing_pdf \<Rightarrow>
             if pi_chunks_count existing_pdf = 0 then Inl ZeroDivisionError
             else
               (let pages_per_chunk =
                      pi_total_pages existing_pdf div pi_chunks_count existing_pdf
                in Inr (chunk_ranges pages_per_chunk (pi_total_pages existing_pdf)
                          (pi_openai_file_ids existing_pdf),
                        pi_id existing_pdf, d))
         | None \<Rightarrow>
             (case split_result of
                [] \<Rightarrow> Inl ValueError
              | c # cs \<Rightarrow>
                  (let file_chunks = c # cs;
                       openai_file_ids = map ch_file_id file_chunks;
                       total_pages = fold max (map ch_end cs) (ch_end c);
                       (pdf_id, d1) =
                         save_pdf_processing L now (uf_name uploaded) file_content
                           total_pages openai_file_ids d;
                       d2 = log_event L now ''pdf_upload''
                              (Some [(''file_name'', PyStr (uf_name uploaded)),
                                     (''file_size'', PyInt (int (length file_content))),
                                     (''total_pages'', PyInt total_pages),
                                     (''chunks_count'', PyInt (int (length file_chunks)))])
                              (Some session_id) d1
                   in Inr (file_chunks, pdf_id, d2))))"

text \<open>
  \<open>restore_pdf_session_complete\<close>, the part that rebuilds the chunks of a stored
  session: the row is read by id, and a chunk count of 0 falls back to 50 pages per
  chunk. The result is \<open>pdf_file_id_chunks\<close>, \<open>uploaded_pdf_name\<close> and
  \<open>current_pdf_id\<close>, or \<open>None\<close> where the function returns \<open>False\<close>.
\<close>

definition restore_pdf_session_complete ::
  "int \<Rightarrow> db \<Rightarrow> (chunk list \<times> string \<times> int) option" where
  "restore_pdf_session_complete pdf_id d =
     (case find (\<lambda>r. ph_id r = pdf_id \<and> ph_status r = ''processed'') (pdf_history d) of
        None \<Rightarrow> None
      | Some pdf_info \<Rightarrow>
          (let pages_per_chunk =
                 (if ph_chunks_count pdf_info > 0
                  then ph_total_pages pdf_info div ph_chunks_count pdf_info else 50)
           in Some (chunk_ranges pages_per_chunk (ph_total_pages pdf_info)
                      (ph_openai_file_ids pdf_info),
                    ph_file_name pdf_info, pdf_id)))"

section \<open>Notions used in the statements\<close>

text \<open>The rows of \<open>market_cache\<close> that hold a given \<open>query_hash\<close>.\<close>

definition rows_with_hash :: "string \<Rightarrow> db \<Rightarrow> market_cache_row list" where
  "rows_with_hash h d = filter (\<lambda>r. mc_query_hash r = h) (market_cache d)"

text \<open>A call of \<open>cache_result\<close> with its arguments and the time it runs at.\<close>

record put_call =
  pc_now :: timestamp
  pc_market_name :: string
  pc_query_type :: string
  pc_result_data :: py_value
  pc_source :: "string option"
  pc_expire_hours :: "int option"
  pc_kwargs :: "(string \<times> py_value) list"

definition apply_put :: "lib \<Rightarrow> put_call \<Rightarrow> db \<Rightarrow> db" where
  "apply_put L c d =
     cache_result L (pc_now c) (pc_market_name c) (pc_query_type c) (pc_result_data c)
       (pc_source c) (pc_expire_hours c) (pc_kwargs c) d"

text \<open>An instance of the library functions for evaluating the methods on concrete inputs.\<close>

definition example_lib :: lib where
  "example_lib = \<lparr>md5_hexdigest = (\<lambda>s. s), json_dumps = (\<lambda>sort_keys kv. concat (map fst kv))\<rparr>"

text \<open>The parameter names of \<open>cache_result\<close>.\<close>

definition cache_result_parameters :: "string list" where
  "cache_result_parameters =
     [''self'', ''market_name'', ''query_type'', ''result_data'', ''source'', ''expire_hours'']"

text \<open>
  What \<open>sort_keys=True\<close> gives \<open>json.dumps\<close>: two keyword lists that are the same
  mapping, in whatever order, have the same text.
\<close>

definition sort_keys_canonical :: "lib \<Rightarrow> bool" where
  "sort_keys_canonical L =
     (\<forall>kw kw'. distinct (map fst kw) \<and> distinct (map fst kw') \<and> map_of kw = map_of kw'
        \<longrightarrow> json_dumps L True kw = json_dumps L True kw')"

text \<open>An instance of the library functions that writes the keys in sorted order.\<close>

definition sorting_lib :: lib where
  "sorting_lib =
     \<lparr>md5_hexdigest = (\<lambda>s. s),
      json_dumps = (\<lambda>sort_keys kv.
        if sort_keys
        then concat (map (\<lambda>k. k @ '':'' @ (case map_of kv k of None \<Rightarrow> [] | Some v \<Rightarrow> py_str v)
                               @ '','')
                       (sorted_list_of_set (fst ` set kv)))
        else concat (map (\<lambda>kv. fst kv @ '':'' @ py_str (snd kv) @ '','') kv))\<rparr>"

text \<open>A parameter mapping of two keys.\<close>

definition example_params :: "(string \<times> py_value) list" where
  "example_params = [(''region'', PyStr ''EU''), (''year'', PyInt 2024)]"

text \<open>The row that \<open>cache_result\<close> inserts.\<close>

definition new_cache_row ::
  "lib \<Rightarrow> timestamp \<Rightarrow> string \<Rightarrow> string \<Rightarrow> py_value \<Rightarrow> string option \<Rightarrow> int option
     \<Rightarrow> (string \<times> py_value) list \<Rightarrow> db \<Rightarrow> market_cache_row" where
  "new_cache_row L now m q v src eh kw d =
     \<lparr>mc_id = market_cache_seq d + 1, mc_market_name = m,
      mc_query_type = q, mc_query_hash = generate_query_hash L m q kw,
      mc_result_data = py_str v, mc_created_at = now,
      mc_expires_at = datetime_plus_hours now (case eh of None \<Rightarrow> 24 | Some h \<Rightarrow> h),
      mc_source = (case src of None \<Rightarrow> ''openai'' | Some s \<Rightarrow> s)\<rparr>"

text \<open>The dictionary that \<open>get_pdf_by_hash\<close> builds from a row.\<close>

definition info_of_row :: "pdf_history_row \<Rightarrow> pdf_info" where
  "info_of_row row =
     \<lparr>pi_id = ph_id row, pi_file_name = ph_file_name row,
      pi_total_pages = ph_total_pages row, pi_chunks_count = ph_chunks_count row,
      pi_openai_file_ids = ph_openai_file_ids row,
      pi_processed_at = ph_processed_at row\<rparr>"

text \<open>A stored document of 30 pages in 3 chunks, and the chunks and the event of its upload.\<close>

definition example_ids :: "string list" where
  "example_ids = [''file-a'', ''file-b'', ''file-c'']"

definition example_pdf_db :: db where
  "example_pdf_db =
     snd (save_pdf_processing example_lib 100 ''report.pdf'' ''%PDF'' 30 example_ids init_database)"

definition example_chunks :: "chunk list" where
  "example_chunks =
     [\<lparr>ch_file_id = ''file-a'', ch_start = 1, ch_end = 10\<rparr>,
      \<lparr>ch_file_id = ''file-b'', ch_start = 11, ch_end = 20\<rparr>,
      \<lparr>ch_file_id = ''file-c'', ch_start = 21, ch_end = 30\<rparr>]"

definition example_upload_event :: usage_analytics_row where
  "example_upload_event =
     \<lparr>ua_id = 1, ua_event_type = ''pdf_upload'',
      ua_event_data = Some ''file_namefile_sizetotal_pageschunks_count'',
      ua_session_id = Some ''session'', ua_created_at = 100\<rparr>"

section \<open>Lemmas on the cache\<close>

lemma market_cache_cache_result:
  "market_cache (cache_result L now m q v src eh kw d) =
     filter (\<lambda>r. mc_query_hash r \<noteq> generate_query_hash L m q kw) (market_cache d)
       @ [new_cache_row L now m q v src eh kw d]"
  by (simp add: cache_result_def new_cache_row_def Let_def)

lemma rows_with_hash_cache_result:
  "rows_with_hash h (cache_result L now m q v src eh kw d) =
     (if h = generate_query_hash L m q kw then [new_cache_row L now m q v src eh kw d]
      else rows_with_hash h d)"
proof -
  let ?k = "generate_query_hash L m q kw"
  have k: "mc_query_hash (new_cache_row L now m q v src eh kw d) = ?k"
    by (simp add: new_cache_row_def)
  have a: "filter (\<lambda>r. mc_query_hash r \<noteq> ?k \<and> mc_query_hash r = ?k) xs = []"
    for xs :: "market_cache_row list"
    by (induction xs) auto
  have b: "h \<noteq> ?k \<Longrightarrow> filter (\<lambda>r. mc_query_hash r \<noteq> ?k \<and> mc_query_hash r = h) xs
              = filter (\<lambda>r. mc_query_hash r = h) xs"
    for xs :: "market_cache_row list"
    by (induction xs) auto
  show ?thesis
  proof (cases "h = ?k")
    case True
    then show ?thesis
      by (simp add: rows_with_hash_def market_cache_cache_result k a)
  next
    case False
    then show ?thesis
      using b [OF False] k by (simp add: rows_with_hash_def market_cache_cache_result)
  qed
qed

lemma find_replaced:
  "P row \<Longrightarrow> (\<And>x. P x \<Longrightarrow> key x = k) \<Longrightarrow>
   find P (filter (\<lambda>r. key r \<noteq> k) xs @ [row]) = Some row"
  by (induction xs) auto

lemma find_replaced_none:
  "\<not> P row \<Longrightarrow> (\<And>x. P x \<Longrightarrow> key x = k) \<Longrightarrow>
   find P (filter (\<lambda>r. key r \<noteq> k) xs @ [row]) = None"
  by (induction xs) auto

lemma get_after_put:
  "get_cached_result L now' m q kw (cache_result L now m q v src eh kw d) =
     ((if live now' (new_cache_row L now m q v src eh kw d)
       then Some \<lparr>data = py_str v, cached_at = now,
                   expires_at = datetime_plus_hours now (case eh of None \<Rightarrow> 24 | Some h \<Rightarrow> h)\<rparr>
       else None),
      cache_result L now m q v src eh kw d)"
proof -
  let ?h = "generate_query_hash L m q kw"
  let ?row = "new_cache_row L now m q v src eh kw d"
  let ?P = "\<lambda>r. mc_query_hash r = ?h \<and> live now' r"
  have h: "mc_query_hash ?row = ?h" by (simp add: new_cache_row_def)
  show ?thesis
  proof (cases "live now' ?row")
    case True
    have "find ?P (filter (\<lambda>r. mc_query_hash r \<noteq> ?h) (market_cache d) @ [?row]) = Some ?row"
      by (rule find_replaced) (use True h in simp_all)
    then show ?thesis using True
      by (simp add: get_cached_result_def market_cache_cache_result)
         (simp add: new_cache_row_def)
  next
    case False
    have "find ?P (filter (\<lambda>r. mc_query_hash r \<noteq> ?h) (market_cache d) @ [?row]) = None"
      by (rule find_replaced_none) (use False in simp_all)
    then show ?thesis using False
      by (simp add: get_cached_result_def market_cache_cache_result)
  qed
qed

lemma live_new_cache_row:
  "live now' (new_cache_row L now m q v src eh kw d) \<longleftrightarrow>
     (case datetime_plus_hours now (case eh of None \<Rightarrow> 24 | Some h \<Rightarrow> h) of
        None \<Rightarrow> True | Some e \<Rightarrow> now' < e)"
  by (simp add: live_def new_cache_row_def)

lemma not_parameter:
  assumes "\<forall>k \<in> fst ` set params. k \<notin> set cache_result_parameters"
    and "n \<in> set cache_result_parameters"
  shows "n \<notin> fst ` set params"
  using assms by blast

lemma parameter_names:
  "''self'' \<in> set cache_result_parameters" "''market_name'' \<in> set cache_result_parameters"
  "''query_type'' \<in> set cache_result_parameters" "''result_data'' \<in> set cache_result_parameters"
  "''source'' \<in> set cache_result_parameters" "''expire_hours'' \<in> set cache_result_parameters"
  by (simp_all add: cache_result_parameters_def)

lemma filter_other_keys:
  "a \<notin> fst ` set ps \<Longrightarrow> b \<notin> fst ` set ps \<Longrightarrow>
   filter (\<lambda>kv. fst kv \<noteq> a \<and> fst kv \<noteq> b) ps = ps"
  by (induction ps) auto

lemma bind_keyword_absent: "bind_keyword f given None = Bound given"
  by (cases given) (simp_all add: bind_keyword_def)

lemma call_cache_result_plain:
  assumes "\<forall>k \<in> fst ` set params. k \<notin> set cache_result_parameters"
  shows "call_cache_result L now m q v src eh params d =
           Some (Inr (cache_result L now m q v src eh params d))"
proof -
  note k = parameter_names [THEN not_parameter [OF assms]]
  have f: "filter (\<lambda>kv. fst kv \<noteq> ''source'' \<and> fst kv \<noteq> ''expire_hours'') params = params"
    by (rule filter_other_keys [OF k(5) k(6)])
  have s: "map_of params ''source'' = None" "map_of params ''expire_hours'' = None"
    using k(5,6) by (simp_all only: map_of_eq_None_iff not_False_eq_True)
  have l: "\<not> list_ex (\<lambda>k. k \<in> fst ` set params)
              [''self'', ''market_name'', ''query_type'', ''result_data'']"
    using k(1-4) by (simp only: list_ex_iff list.set Bex_def) blast
  show ?thesis
    unfolding call_cache_result_def Let_def f s bind_keyword_absent
    by (simp only: l if_False prod.case binding.case)
qed

lemma call_get_cached_result_plain:
  assumes "\<forall>k \<in> fst ` set params. k \<notin> set cache_result_parameters"
  shows "call_get_cached_result L now m q params d = Inr (get_cached_result L now m q params d)"
proof -
  note k = parameter_names [THEN not_parameter [OF assms]]
  have l: "\<not> list_ex (\<lambda>k. k \<in> fst ` set params) [''self'', ''market_name'', ''query_type'']"
    using k(1-3) by (simp only: list_ex_iff list.set Bex_def) blast
  show ?thesis
    unfolding call_get_cached_result_def by (simp only: l if_False)
qed

lemma get_cached_result_cong:
  "generate_query_hash L m q kw' = generate_query_hash L m q kw \<Longrightarrow>
   get_cached_result L now m q kw' d = get_cached_result L now m q kw d"
  by (simp add: get_cached_result_def)

lemma generate_query_hash_canonical:
  assumes "sort_keys_canonical L" "distinct (map fst kw)" "distinct (map fst kw')"
    "map_of kw' = map_of kw"
  shows "generate_query_hash L m q kw' = generate_query_hash L m q kw"
proof -
  have "json_dumps L True kw' = json_dumps L True kw"
    using assms(1) [unfolded sort_keys_canonical_def, rule_format, of kw' kw] assms(2-4)
    by simp
  then show ?thesis by (simp add: generate_query_hash_def)
qed

lemma json_dumps_sorting_lib:
  "json_dumps sorting_lib True kw =
     concat (map (\<lambda>k. k @ '':'' @ (case map_of kw k of None \<Rightarrow> [] | Some v \<Rightarrow> py_str v) @ '','')
               (sorted_list_of_set (dom (map_of kw))))"
  by (simp only: sorting_lib_def lib.simps if_True dom_map_of_conv_image_fst)

lemma sort_keys_canonical_sorting_lib: "sort_keys_canonical sorting_lib"
  unfolding sort_keys_canonical_def
proof (intro allI impI, elim conjE)
  fix kw kw' :: "(string \<times> py_value) list"
  assume "map_of kw = map_of kw'"
  then show "json_dumps sorting_lib True kw = json_dumps sorting_lib True kw'"
    by (simp only: json_dumps_sorting_lib)
qed

section \<open>Lemmas on documents and chunks\<close>

lemma length_chunk_ranges: "length (chunk_ranges k P ids) = length ids"
  by (simp add: chunk_ranges_def)

lemma nth_chunk_ranges:
  "i < length ids \<Longrightarrow>
   chunk_ranges k P ids ! i =
     \<lparr>ch_file_id = ids ! i, ch_start = int i * k + 1, ch_end = min ((int i + 1) * k) P\<rparr>"
  by (simp add: chunk_ranges_def nth_enumerate_eq)

lemma set_chunk_ranges:
  "set (chunk_ranges k P ids) = (\<lambda>i. chunk_ranges k P ids ! i) ` {..<length ids}"
  using set_conv_nth [of "chunk_ranges k P ids"] by (auto simp: length_chunk_ranges)

lemma interval_extend:
  "0 \<le> (a::int) \<Longrightarrow> 0 \<le> k \<Longrightarrow> {1 .. a} \<union> {a + 1 .. a + k} = {1 .. a + k}"
  by auto

lemma union_blocks:
  "0 \<le> k \<Longrightarrow> (\<Union>i<n. {int i * k + 1 .. (int i + 1) * k}) = {1 .. int n * k}"
proof (induction n)
  case 0
  then show ?case by simp
next
  case (Suc n)
  have nk: "0 \<le> int n * k" using Suc.prems by simp
  have e: "(int n + 1) * k = int n * k + k" by (simp add: algebra_simps)
  have "(\<Union>i<Suc n. {int i * k + 1 .. (int i + 1) * k})
          = {1 .. int n * k} \<union> {int n * k + 1 .. int n * k + k}"
    using Suc by (simp add: lessThan_Suc Un_commute e)
  also have "\<dots> = {1 .. int n * k + k}"
    by (rule interval_extend [OF nk Suc.prems])
  finally show ?case by (simp add: algebra_simps)
qed

lemma even_split:
  assumes "0 \<le> (P::int)" "0 < N" "N dvd P"
  shows "0 \<le> P div N \<and> N * (P div N) = P"
  using assms by (simp add: pos_imp_zdiv_nonneg_iff)

lemma block_end_le:
  assumes "0 \<le> (k::int)" "i < n"
  shows "(int i + 1) * k \<le> int n * k"
  using assms by (intro mult_right_mono) auto


lemma dedup_hit:
  assumes "get_pdf_by_hash (md5_hexdigest L (uf_content f)) d = Some p"
      and "pi_chunks_count p \<noteq> 0"
  shows "process_pdf_with_deduplication L now sid split f d =
           Inr (chunk_ranges (pi_total_pages p div pi_chunks_count p) (pi_total_pages p)
                  (pi_openai_file_ids p), pi_id p, d)"
  using assms by (simp add: process_pdf_with_deduplication_def Let_def)

lemma restore_hit:
  assumes "find (\<lambda>r. ph_id r = pid \<and> ph_status r = ''processed'') (pdf_history d) = Some r"
      and "0 < ph_chunks_count r"
  shows "restore_pdf_session_complete pid d =
           Some (chunk_ranges (ph_total_pages r div ph_chunks_count r) (ph_total_pages r)
                   (ph_openai_file_ids r), ph_file_name r, pid)"
  using assms by (simp add: restore_pdf_session_complete_def Let_def)

lemma latest_None: "latest xs = None \<longleftrightarrow> xs = []"
  by (induction xs) (auto split: option.splits)

lemma latest_Some:
  "latest xs = Some r \<Longrightarrow>
   r \<in> set xs \<and> (\<forall>x \<in> set xs. ph_processed_at x \<le> ph_processed_at r)"
proof (induction xs arbitrary: r)
  case Nil
  then show ?case by simp
next
  case (Cons a xs)
  show ?case
  proof (cases "latest xs")
    case None
    then have "xs = []" by (simp add: latest_None)
    with Cons.prems show ?thesis by simp
  next
    case (Some r')
    note ih = Cons.IH [OF Some]
    show ?thesis
    proof (cases "ph_processed_at r' > ph_processed_at a")
      case True
      with Some Cons.prems have "r = r'" by simp
      with ih True show ?thesis by auto
    next
      case False
      with Some Cons.prems have "r = a" by simp
      with ih False show ?thesis by fastforce
    qed
  qed
qed

lemma get_pdf_by_hash_None:
  "get_pdf_by_hash h d = None \<longleftrightarrow>
     \<not> (\<exists>r \<in> set (pdf_history d). ph_file_hash r = h \<and> ph_status r = ''processed'')"
proof -
  have "get_pdf_by_hash h d = None \<longleftrightarrow> filter (processed_with_hash h) (pdf_history d) = []"
    using latest_None [of "filter (processed_with_hash h) (pdf_history d)"]
    by (auto simp: get_pdf_by_hash_def split: option.splits)
  then show ?thesis
    by (auto simp: filter_empty_conv processed_with_hash_def)
qed

lemma get_pdf_by_hash_Some:
  assumes "get_pdf_by_hash h d = Some p"
  shows "\<exists>r \<in> set (pdf_history d).
           p = info_of_row r \<and> ph_file_hash r = h \<and> ph_status r = ''processed'' \<and>
           (\<forall>x \<in> set (pdf_history d).
              ph_file_hash x = h \<and> ph_status x = ''processed''
                \<longrightarrow> ph_processed_at x \<le> ph_processed_at r)"
proof -
  obtain r where r: "latest (filter (processed_with_hash h) (pdf_history d)) = Some r"
    and p: "p = info_of_row r"
    using assms by (auto simp: get_pdf_by_hash_def info_of_row_def split: option.splits)
  from latest_Some [OF r] show ?thesis
    using p by (auto simp: processed_with_hash_def)
qed

lemma get_pdf_by_hash_after_save:
  assumes "get_pdf_by_hash (md5_hexdigest L content) d = None"
  shows "get_pdf_by_hash (md5_hexdigest L content)
           (snd (save_pdf_processing L now name content pages ids d)) =
         Some \<lparr>pi_id = pdf_history_seq d + 1, pi_file_name = name, pi_total_pages = pages,
               pi_chunks_count = int (length ids), pi_openai_file_ids = ids,
               pi_processed_at = now\<rparr>"
proof -
  have "filter (processed_with_hash (md5_hexdigest L content)) (pdf_history d) = []"
    using assms latest_None [of "filter (processed_with_hash (md5_hexdigest L content)) (pdf_history d)"]
    by (auto simp: get_pdf_by_hash_def split: option.splits)
  then show ?thesis
    by (simp add: get_pdf_by_hash_def save_pdf_processing_def Let_def processed_with_hash_def)
qed

lemma get_pdf_by_hash_log_event:
  "get_pdf_by_hash h (log_event L now ev ed sid d) = get_pdf_by_hash h d"
  by (simp add: get_pdf_by_hash_def log_event_def Let_def)

lemma second_ingestion:
  assumes "process_pdf_with_deduplication L now1 sid1 split1 f1 d = Inr (chunks1, id1, d1)"
      and "uf_content f2 = uf_content f1"
  shows "\<exists>p. get_pdf_by_hash (md5_hexdigest L (uf_content f2)) d1 = Some p \<and> pi_id p = id1 \<and>
             process_pdf_with_deduplication L now2 sid2 split2 f2 d1 =
               Inr (chunk_ranges (pi_total_pages p div pi_chunks_count p) (pi_total_pages p)
                      (pi_openai_file_ids p), id1, d1) \<and>
             (get_pdf_by_hash (md5_hexdigest L (uf_content f1)) d = None \<longrightarrow>
                pi_file_name p = uf_name f1 \<and>
                pi_chunks_count p = int (length split1) \<and>
                pi_total_pages p = Max (ch_end ` set split1) \<and>
                pi_openai_file_ids p = map ch_file_id split1)"
proof (cases "get_pdf_by_hash (md5_hexdigest L (uf_content f1)) d")
  case (Some p)
  with assms(1) have nz: "pi_chunks_count p \<noteq> 0" and eq: "id1 = pi_id p" "d1 = d"
    by (auto simp: process_pdf_with_deduplication_def Let_def split: if_splits)
  show ?thesis
    using Some nz eq assms(2) dedup_hit [of L f2 d p now2 sid2 split2] by simp
next
  case None
  with assms(1) obtain c cs where split1: "split1 = c # cs"
    by (auto simp: process_pdf_with_deduplication_def Let_def split: list.splits)
  let ?pages = "fold max (map ch_end cs) (ch_end c)"
  let ?ids = "map ch_file_id split1"
  let ?s = "save_pdf_processing L now1 (uf_name f1) (uf_content f1) ?pages ?ids d"
  let ?p = "\<lparr>pi_id = pdf_history_seq d + 1, pi_file_name = uf_name f1, pi_total_pages = ?pages,
               pi_chunks_count = int (length ?ids), pi_openai_file_ids = ?ids,
               pi_processed_at = now1\<rparr>"
  have id1: "id1 = pdf_history_seq d + 1"
    using assms(1) None split1
    by (simp add: process_pdf_with_deduplication_def Let_def save_pdf_processing_def)
  have d1: "d1 = log_event L now1 ''pdf_upload''
                   (Some [(''file_name'', PyStr (uf_name f1)),
                          (''file_size'', PyInt (int (length (uf_content f1)))),
                          (''total_pages'', PyInt ?pages),
                          (''chunks_count'', PyInt (int (length split1)))])
                   (Some sid1) (snd ?s)"
    using assms(1) None split1
    by (simp add: process_pdf_with_deduplication_def Let_def split: prod.splits)
  have g: "get_pdf_by_hash (md5_hexdigest L (uf_content f2)) d1 = Some ?p"
    unfolding d1 get_pdf_by_hash_log_event assms(2)
    by (rule get_pdf_by_hash_after_save [OF None])
  have nz: "pi_chunks_count ?p \<noteq> 0" using split1 by simp
  have mx: "?pages = Max (ch_end ` set split1)"
    using Max.set_eq_fold [of "ch_end c" "map ch_end cs"] split1 by simp
  show ?thesis
    using g nz id1 mx dedup_hit [OF g nz, of now2 sid2 split2] by simp
qed

lemma example_pdf_db_eval:
  "pdf_history example_pdf_db =
     [\<lparr>ph_id = 1, ph_file_name = ''report.pdf'', ph_file_hash = ''%PDF'', ph_file_size = 4,
       ph_total_pages = 30, ph_chunks_count = 3, ph_openai_file_ids = example_ids,
       ph_processed_at = 100, ph_status = ''processed''\<rparr>]"
  by (simp add: example_pdf_db_def save_pdf_processing_def init_database_def example_lib_def
        example_ids_def)

lemma first_ingestion_eval:
  "process_pdf_with_deduplication example_lib 100 ''session'' example_chunks
     \<lparr>uf_name = ''report.pdf'', uf_content = ''%PDF''\<rparr> init_database =
   Inr (example_chunks, 1,
        example_pdf_db\<lparr>usage_analytics := [example_upload_event], usage_analytics_seq := 1\<rparr>)"
  by (simp add: process_pdf_with_deduplication_def get_pdf_by_hash_def init_database_def
        example_chunks_def example_pdf_db_def save_pdf_processing_def log_event_def
        example_lib_def example_ids_def example_upload_event_def Let_def)

section \<open>The claims\<close>

text \<open>
  C1. The round trip fails for a parameter mapping with the key \<open>source\<close>. When the
  call of \<open>cache_result\<close> leaves \<open>source\<close> out, the key is bound to that parameter and
  the entry is stored under the hash of the empty mapping, so \<open>get_cached_result\<close> with
  the same mapping, which hashes the key, finds nothing. When the call also passes
  \<open>source\<close>, it raises \<open>TypeError\<close>.
\<close>

theorem put_then_get_counterexample:
  "call_cache_result example_lib 1000 ''EV Batteries'' ''global'' (PyStr ''overview text'')
     None (Some 24) [(''source'', PyStr ''web'')] init_database
   = Some (Inr (cache_result example_lib 1000 ''EV Batteries'' ''global''
                  (PyStr ''overview text'') (Some ''web'') (Some 24) [] init_database)) \<and>
   call_get_cached_result example_lib 1000 ''EV Batteries'' ''global''
     [(''source'', PyStr ''web'')]
     (cache_result example_lib 1000 ''EV Batteries'' ''global''
        (PyStr ''overview text'') (Some ''web'') (Some 24) [] init_database)
   = Inr (None, cache_result example_lib 1000 ''EV Batteries'' ''global''
                  (PyStr ''overview text'') (Some ''web'') (Some 24) [] init_database) \<and>
   call_cache_result example_lib 1000 ''EV Batteries'' ''global'' (PyStr ''overview text'')
     (Some ''openai'') (Some 24) [(''source'', PyStr ''web'')] init_database
   = Some (Inl TypeError)"
proof -
  let ?d = "cache_result example_lib 1000 ''EV Batteries'' ''global''
              (PyStr ''overview text'') (Some ''web'') (Some 24) [] init_database"
  have a: "call_cache_result example_lib 1000 ''EV Batteries'' ''global''
             (PyStr ''overview text'') None (Some 24) [(''source'', PyStr ''web'')] init_database
           = Some (Inr ?d)"
    by (simp add: call_cache_result_def bind_keyword_def)
  have "get_cached_result example_lib 1000 ''EV Batteries'' ''global''
          [(''source'', PyStr ''web'')] ?d = (None, ?d)"
    by (simp add: get_cached_result_def market_cache_cache_result new_cache_row_def
          generate_query_hash_def example_lib_def init_database_def)
  then have b: "call_get_cached_result example_lib 1000 ''EV Batteries'' ''global''
                  [(''source'', PyStr ''web'')] ?d = Inr (None, ?d)"
    by (simp add: call_get_cached_result_def)
  have c: "call_cache_result example_lib 1000 ''EV Batteries'' ''global''
             (PyStr ''overview text'') (Some ''openai'') (Some 24)
             [(''source'', PyStr ''web'')] init_database = Some (Inl TypeError)"
    by (simp add: call_cache_result_def bind_keyword_def)
  show ?thesis
    using a b c by (intro conjI)
qed

text \<open>
  C1, as the code has it. For a parameter mapping none of whose keys is a parameter name
  of \<open>cache_result\<close>, a call of \<open>cache_result\<close> with a string payload and a positive
  \<open>expire_hours\<close>, with or without \<open>source\<close>, followed by \<open>get_cached_result\<close> with
  the same market name, query type and mapping (its keys in any order) at once, or at any
  time before the \<open>expire_hours\<close> have run out, raises nothing, finds the entry and
  returns the payload that was written.
\<close>

theorem put_then_get_same_mapping:
  assumes "sort_keys_canonical L"
      and "\<forall>k \<in> fst ` set params. k \<notin> set cache_result_parameters"
      and "distinct (map fst params)" and "distinct (map fst params')"
      and "map_of params' = map_of params"
      and "0 < ttl" and "now' < now + 3600 * ttl"
  shows "\<exists>d' r. call_cache_result L now m q (PyStr payload) src (Some ttl) params d
                  = Some (Inr d') \<and>
                call_get_cached_result L now' m q params' d' = Inr (Some r, d') \<and>
                data r = payload"
proof -
  let ?d' = "cache_result L now m q (PyStr payload) src (Some ttl) params d"
  have "fst ` set params' = fst ` set params"
    using assms(5) dom_map_of_conv_image_fst [of params] dom_map_of_conv_image_fst [of params']
    by simp
  then have keys': "\<forall>k \<in> fst ` set params'. k \<notin> set cache_result_parameters"
    using assms(2) by simp
  have put: "call_cache_result L now m q (PyStr payload) src (Some ttl) params d = Some (Inr ?d')"
    by (rule call_cache_result_plain [OF assms(2)])
  have h: "generate_query_hash L m q params' = generate_query_hash L m q params"
    by (rule generate_query_hash_canonical [OF assms(1) assms(3) assms(4) assms(5)])
  have l: "live now' (new_cache_row L now m q (PyStr payload) src (Some ttl) params d)"
    using assms(6,7) by (simp add: live_new_cache_row datetime_plus_hours_def)
  have "get_cached_result L now' m q params' ?d' = get_cached_result L now' m q params ?d'"
    by (rule get_cached_result_cong [OF h])
  also have "\<dots> = (Some \<lparr>data = payload, cached_at = now,
                            expires_at = datetime_plus_hours now ttl\<rparr>, ?d')"
    using l by (simp add: get_after_put)
  finally have get: "call_get_cached_result L now' m q params' ?d' =
      Inr (Some \<lparr>data = payload, cached_at = now, expires_at = datetime_plus_hours now ttl\<rparr>, ?d')"
    by (simp only: call_get_cached_result_plain [OF keys'])
  show ?thesis
    using put get by (intro exI [of _ ?d'] exI [of _ "\<lparr>data = payload, cached_at = now,
                            expires_at = datetime_plus_hours now ttl\<rparr>"]) simp
qed

theorem put_then_get_same_mapping_witness:
  "sort_keys_canonical sorting_lib \<and>
   set (map fst example_params) \<inter> set cache_result_parameters = {} \<and>
   distinct (map fst example_params) \<and> distinct (map fst (rev example_params)) \<and>
   map_of (rev example_params) = map_of example_params \<and>
   (0::int) < 24 \<and> (1000::int) < 1000 + 3600 * 24 \<and>
   (\<exists>d' r. call_cache_result sorting_lib 1000 ''EV Batteries'' ''global''
              (PyStr ''overview text'') (Some ''openai'') (Some 24) example_params init_database
              = Some (Inr d') \<and>
            call_get_cached_result sorting_lib 1000 ''EV Batteries'' ''global''
              (rev example_params) d' = Inr (Some r, d') \<and>
            data r = ''overview text'')"
proof -
  have h1: "sort_keys_canonical sorting_lib"
    by (rule sort_keys_canonical_sorting_lib)
  have k: "set (map fst example_params) \<inter> set cache_result_parameters = {}"
    by (simp add: example_params_def cache_result_parameters_def)
  then have h2: "\<forall>k \<in> fst ` set example_params. k \<notin> set cache_result_parameters"
    by (simp only: set_map) blast
  have h3: "distinct (map fst example_params)"
    by (simp add: example_params_def)
  have h4: "distinct (map fst (rev example_params))"
    by (simp add: example_params_def)
  have h5: "map_of (rev example_params) = map_of example_params"
    by (rule ext) (simp add: example_params_def)
  have h6: "(0::int) < 24" by simp
  have h7: "(1000::int) < 1000 + 3600 * 24" by simp
  note t = put_then_get_same_mapping [OF h1 h2 h3 h4 h5 h6 h7,
      of "''EV Batteries''" "''global''" "''overview text''" "Some ''openai''" init_database]
  show ?thesis
    using h1 k h3 h4 h5 h6 h7 t by (intro conjI)
qed

lemma length_rows_with_hash_cache_result:
  "length (rows_with_hash h d) \<le> 1 \<Longrightarrow>
   length (rows_with_hash h (cache_result L now m q v src eh kw d)) \<le> 1"
  by (simp add: rows_with_hash_cache_result)

lemma length_rows_with_hash_fold:
  "length (rows_with_hash h d) \<le> 1 \<Longrightarrow>
   length (rows_with_hash h (fold (apply_put L) calls d)) \<le> 1"
proof (induction calls arbitrary: d)
  case Nil
  then show ?case by simp
next
  case (Cons c calls)
  have "length (rows_with_hash h (apply_put L c d)) \<le> 1"
    unfolding apply_put_def by (rule length_rows_with_hash_cache_result) (rule Cons.prems)
  then show ?case
    using Cons.IH by simp
qed

text \<open>
  C2. Whatever sequence of \<open>cache_result\<close> calls runs on a \<open>market_cache\<close> that holds
  a \<open>query_hash\<close> at most once, the table holds it at most once afterwards. After two
  calls with the same market name, query type and keyword arguments the table holds
  exactly one row of their hash, and its \<open>result_data\<close> is that of the later call.
\<close>

theorem cache_hash_unique:
  assumes "length (rows_with_hash h d) \<le> 1"
  shows "length (rows_with_hash h (fold (apply_put L) calls d)) \<le> 1 \<and>
         (\<exists>r. rows_with_hash (generate_query_hash L m q kw)
                (cache_result L now2 m q v2 src2 eh2 kw
                   (cache_result L now1 m q v1 src1 eh1 kw d0)) = [r]
              \<and> mc_result_data r = py_str v2)"
  using length_rows_with_hash_fold [OF assms]
  by (simp add: rows_with_hash_cache_result new_cache_row_def)

theorem cache_hash_unique_witness:
  "length (rows_with_hash ''a:global:'' init_database) \<le> 1 \<and>
   length (rows_with_hash ''a:global:''
      (fold (apply_put example_lib)
         [\<lparr>pc_now = 10, pc_market_name = ''a'', pc_query_type = ''global'',
            pc_result_data = PyStr ''one'', pc_source = None, pc_expire_hours = Some 24,
            pc_kwargs = []\<rparr>,
          \<lparr>pc_now = 20, pc_market_name = ''b'', pc_query_type = ''global'',
            pc_result_data = PyStr ''two'', pc_source = None, pc_expire_hours = None,
            pc_kwargs = []\<rparr>,
          \<lparr>pc_now = 30, pc_market_name = ''a'', pc_query_type = ''global'',
            pc_result_data = PyStr ''three'', pc_source = Some ''web'', pc_expire_hours = Some 1,
            pc_kwargs = []\<rparr>]
         init_database)) = 1"
proof -
  have h: "length (rows_with_hash ''a:global:'' init_database) \<le> 1"
    by (simp add: rows_with_hash_def init_database_def)
  show ?thesis
    using h cache_hash_unique [OF h, of example_lib "[]" "''a''" "''global''" "[]"]
    by (simp add: rows_with_hash_cache_result apply_put_def generate_query_hash_def example_lib_def)
qed

lemma find_None_unique:
  assumes "length (filter (\<lambda>r. key r = k) xs) \<le> 1" "r \<in> set xs" "key r = k" "\<not> Q r"
  shows "find (\<lambda>x. key x = k \<and> Q x) xs = None"
proof -
  have "\<And>x. x \<in> set xs \<Longrightarrow> key x = k \<Longrightarrow> x = r"
  proof (rule ccontr)
    fix x assume x: "x \<in> set xs" "key x = k" "x \<noteq> r"
    have "{x, r} \<subseteq> set (filter (\<lambda>r. key r = k) xs)" using x assms by auto
    then have "card {x, r} \<le> card (set (filter (\<lambda>r. key r = k) xs))"
      by (intro card_mono) auto
    also have "\<dots> \<le> length (filter (\<lambda>r. key r = k) xs)" by (rule card_length)
    finally show False using x assms(1) by simp
  qed
  then show ?thesis using assms(4) by (auto simp: find_None_iff)
qed

text \<open>
  C3. Where the row of a key has an \<open>expires_at\<close> that is not after the current time,
  \<open>get_cached_result\<close> returns \<open>None\<close> and leaves the database as it was, the row
  included. \<open>cleanup_expired_cache\<close> keeps exactly the rows whose \<open>expires_at\<close> is
  not before the current time or is NULL. An entry written with \<open>expire_hours = 0\<close>
  is never returned, and stays in the table.
\<close>

theorem expired_entry_lazy:
  assumes "length (rows_with_hash (generate_query_hash L m q kw) d) \<le> 1"
      and "r \<in> set (market_cache d)"
      and "mc_query_hash r = generate_query_hash L m q kw"
      and "mc_expires_at r = Some e" and "e \<le> now"
  shows "get_cached_result L now m q kw d = (None, d) \<and>
         (\<forall>x. x \<in> set (market_cache (cleanup_expired_cache now' d)) \<longleftrightarrow>
                x \<in> set (market_cache d) \<and> \<not> (\<exists>t. mc_expires_at x = Some t \<and> t < now')) \<and>
         (now0 \<le> now' \<and> now0 \<le> sqlite_max_datetime \<longrightarrow>
            get_cached_result L now' m q kw (cache_result L now0 m q v src (Some 0) kw d0)
              = (None, cache_result L now0 m q v src (Some 0) kw d0) \<and>
            new_cache_row L now0 m q v src (Some 0) kw d0
              \<in> set (market_cache (cache_result L now0 m q v src (Some 0) kw d0)))"
proof -
  have "\<not> live now r" using assms(4,5) by (simp add: live_def)
  then have "find (\<lambda>x. mc_query_hash x = generate_query_hash L m q kw \<and> live now x)
               (market_cache d) = None"
    using assms(1-3) unfolding rows_with_hash_def by (intro find_None_unique [where r = r]) auto
  then have a: "get_cached_result L now m q kw d = (None, d)"
    by (simp add: get_cached_result_def)
  have b: "x \<in> set (market_cache (cleanup_expired_cache now' d)) \<longleftrightarrow>
             x \<in> set (market_cache d) \<and> \<not> (\<exists>t. mc_expires_at x = Some t \<and> t < now')" for x
    by (auto simp: cleanup_expired_cache_def in_past_def split: option.splits)
  have c: "now0 \<le> now' \<Longrightarrow> now0 \<le> sqlite_max_datetime \<Longrightarrow>
             \<not> live now' (new_cache_row L now0 m q v src (Some 0) kw d0)"
    by (simp add: live_new_cache_row datetime_plus_hours_def split: option.splits)
  show ?thesis
    using a b c by (simp add: get_after_put market_cache_cache_result)
qed


theorem expired_entry_lazy_witness:
  "(10::int) \<le> 50 \<and> (10::int) \<le> sqlite_max_datetime \<and>
   get_cached_result example_lib 50 ''a'' ''global'' []
     (cache_result example_lib 10 ''a'' ''global'' (PyStr ''one'') None (Some 0) [] init_database)
   = (None,
      cache_result example_lib 10 ''a'' ''global'' (PyStr ''one'') None (Some 0) [] init_database) \<and>
   new_cache_row example_lib 10 ''a'' ''global'' (PyStr ''one'') None (Some 0) [] init_database
     \<in> set (market_cache
         (cache_result example_lib 10 ''a'' ''global'' (PyStr ''one'') None (Some 0) []
            init_database)) \<and>
   new_cache_row example_lib 10 ''a'' ''global'' (PyStr ''one'') None (Some 0) [] init_database
     \<notin> set (market_cache (cleanup_expired_cache 50
         (cache_result example_lib 10 ''a'' ''global'' (PyStr ''one'') None (Some 0) []
            init_database)))"
proof -
  let ?d = "cache_result example_lib 10 ''a'' ''global'' (PyStr ''one'') None (Some 0) [] init_database"
  let ?r = "new_cache_row example_lib 10 ''a'' ''global'' (PyStr ''one'') None (Some 0) [] init_database"
  have h1: "length (rows_with_hash (generate_query_hash example_lib ''a'' ''global'' []) ?d) \<le> 1"
    by (simp add: rows_with_hash_cache_result)
  have h2: "?r \<in> set (market_cache ?d)"
    by (simp add: market_cache_cache_result)
  have h3: "mc_query_hash ?r = generate_query_hash example_lib ''a'' ''global'' []"
    by (simp add: new_cache_row_def)
  have h4: "mc_expires_at ?r = Some 10"
    by (simp add: new_cache_row_def datetime_plus_hours_def sqlite_max_datetime_def)
  have h5: "(10::int) \<le> 50" by simp
  have h6: "(10::int) \<le> sqlite_max_datetime" by (simp add: sqlite_max_datetime_def)
  show ?thesis
    using expired_entry_lazy [OF h1 h2 h3 h4 h5, where now' = 50 and ?now0.0 = 10
        and v = "PyStr ''one''" and src = None and ?d0.0 = init_database] h2 h4 h5 h6
    by simp
qed




text \<open>
  C5. \<open>save_pdf_qa\<close> with a \<open>pdf_history_id\<close> that no row of \<open>pdf_history\<close> holds
  is not refused on the connection the code opens: on the empty database, with
  \<open>pdf_history_id = 999\<close>, it returns the new id 1 and leaves the row in \<open>pdf_qa\<close>.
\<close>

theorem save_pdf_qa_missing_document:
  "pdf_history init_database = [] \<and>
   (case save_pdf_qa 1000 999 ''What is CAGR?'' ''12%'' (Some 5) (Some 3) init_database of
      Inl e \<Rightarrow> False
    | Inr (new_id, d') \<Rightarrow>
        new_id = 1 \<and> map qa_pdf_history_id (pdf_qa d') = [999] \<and>
        map qa_question (pdf_qa d') = [''What is CAGR?''] \<and> pdf_history d' = [])"
  by (simp add: save_pdf_qa_def connect_foreign_keys_def init_database_def Let_def)

text \<open>
  C7. \<open>get_pdf_by_hash\<close> returns \<open>None\<close> exactly when no row has the hash and the
  status \<open>processed\<close>; what it returns otherwise is built from such a row, and no
  such row has a later \<open>processed_at\<close>. When \<open>process_pdf_with_deduplication\<close> has
  handled a file, handling a file of the same content again (under any name, at any
  time) finds the record of the first call, returns its id and its chunks, and leaves
  the database as it was; after a first call that stored the file, that record carries
  the name, the chunk count and the page count of that call.
\<close>

theorem find_by_content:
  "(get_pdf_by_hash h d = None \<longleftrightarrow>
      \<not> (\<exists>r \<in> set (pdf_history d). ph_file_hash r = h \<and> ph_status r = ''processed'')) \<and>
   (get_pdf_by_hash h d = Some p \<longrightarrow>
      (\<exists>r \<in> set (pdf_history d).
         p = info_of_row r \<and> ph_file_hash r = h \<and> ph_status r = ''processed'' \<and>
         (\<forall>x \<in> set (pdf_history d).
            ph_file_hash x = h \<and> ph_status x = ''processed''
              \<longrightarrow> ph_processed_at x \<le> ph_processed_at r))) \<and>
   (process_pdf_with_deduplication L now1 sid1 split1 f1 d = Inr (chunks1, id1, d1) \<and>
    uf_content f2 = uf_content f1 \<longrightarrow>
      (\<exists>q. get_pdf_by_hash (md5_hexdigest L (uf_content f2)) d1 = Some q \<and> pi_id q = id1 \<and>
           process_pdf_with_deduplication L now2 sid2 split2 f2 d1 =
             Inr (chunk_ranges (pi_total_pages q div pi_chunks_count q) (pi_total_pages q)
                    (pi_openai_file_ids q), id1, d1) \<and>
           (get_pdf_by_hash (md5_hexdigest L (uf_content f1)) d = None \<longrightarrow>
              pi_file_name q = uf_name f1 \<and>
              pi_chunks_count q = int (length split1) \<and>
              pi_total_pages q = Max (ch_end ` set split1) \<and>
              pi_openai_file_ids q = map ch_file_id split1)))"
  using get_pdf_by_hash_None [of h d] get_pdf_by_hash_Some [of h d p]
    second_ingestion [of L now1 sid1 split1 f1 d chunks1 id1 d1 f2 now2 sid2 split2]
  by blast

theorem find_by_content_witness:
  "process_pdf_with_deduplication example_lib 100 ''session'' example_chunks
     \<lparr>uf_name = ''report.pdf'', uf_content = ''%PDF''\<rparr> init_database =
   Inr (example_chunks, 1,
        example_pdf_db\<lparr>usage_analytics := [example_upload_event], usage_analytics_seq := 1\<rparr>) \<and>
   uf_content \<lparr>uf_name = ''copy.pdf'', uf_content = ''%PDF''\<rparr> =
     uf_content \<lparr>uf_name = ''report.pdf'', uf_content = ''%PDF''\<rparr> \<and>
   get_pdf_by_hash (md5_hexdigest example_lib ''%PDF'') init_database = None \<and>
   (\<exists>q. get_pdf_by_hash (md5_hexdigest example_lib ''%PDF'')
          (example_pdf_db\<lparr>usage_analytics := [example_upload_event], usage_analytics_seq := 1\<rparr>)
          = Some q \<and>
        pi_id q = 1 \<and> pi_file_name q = ''report.pdf'' \<and> pi_chunks_count q = 3 \<and>
        pi_total_pages q = 30 \<and>
        process_pdf_with_deduplication example_lib 200 ''later'' []
          \<lparr>uf_name = ''copy.pdf'', uf_content = ''%PDF''\<rparr>
          (example_pdf_db\<lparr>usage_analytics := [example_upload_event], usage_analytics_seq := 1\<rparr>) =
        Inr (chunk_ranges (pi_total_pages q div pi_chunks_count q) (pi_total_pages q)
               (pi_openai_file_ids q), 1,
             example_pdf_db\<lparr>usage_analytics := [example_upload_event], usage_analytics_seq := 1\<rparr>))"
proof -
  let ?f1 = "\<lparr>uf_name = ''report.pdf'', uf_content = ''%PDF''\<rparr>"
  let ?f2 = "\<lparr>uf_name = ''copy.pdf'', uf_content = ''%PDF''\<rparr>"
  let ?d1 = "example_pdf_db\<lparr>usage_analytics := [example_upload_event], usage_analytics_seq := 1\<rparr>"
  have h1: "process_pdf_with_deduplication example_lib 100 ''session'' example_chunks ?f1
              init_database = Inr (example_chunks, 1, ?d1)"
    by (rule first_ingestion_eval)
  have h2: "uf_content ?f2 = uf_content ?f1" by simp
  have h3: "get_pdf_by_hash (md5_hexdigest example_lib (uf_content ?f1)) init_database = None"
    by (simp add: get_pdf_by_hash_def init_database_def)
  have "Max (ch_end ` set example_chunks) = Max (set (map ch_end example_chunks))"
    by simp
  also have "\<dots> = 30"
    unfolding example_chunks_def by (simp add: Max.set_eq_fold)
  finally have m1: "Max (ch_end ` set example_chunks) = 30" .
  have m2: "int (length example_chunks) = 3"
    by (simp add: example_chunks_def)
  note t = find_by_content [where L = example_lib and ?now1.0 = 100 and ?sid1.0 = "''session''"
        and ?split1.0 = example_chunks and ?f1.0 = ?f1 and d = init_database
        and ?chunks1.0 = example_chunks and ?id1.0 = 1 and ?d1.0 = ?d1 and ?f2.0 = ?f2
        and ?now2.0 = 200 and ?sid2.0 = "''later''" and ?split2.0 = "[]",
        THEN conjunct2, THEN conjunct2, THEN mp, OF conjI [OF h1 h2]]
  then obtain q where q:
    "get_pdf_by_hash (md5_hexdigest example_lib (uf_content ?f2)) ?d1 = Some q \<and>
     pi_id q = 1 \<and>
     process_pdf_with_deduplication example_lib 200 ''later'' [] ?f2 ?d1 =
               Inr (chunk_ranges (pi_total_pages q div pi_chunks_count q) (pi_total_pages q)
                      (pi_openai_file_ids q), 1, ?d1) \<and>
     (get_pdf_by_hash (md5_hexdigest example_lib (uf_content ?f1)) init_database = None
               \<longrightarrow> pi_file_name q = uf_name ?f1 \<and>
                   pi_chunks_count q = int (length example_chunks) \<and>
                   pi_total_pages q = Max (ch_end ` set example_chunks) \<and>
                   pi_openai_file_ids q = map ch_file_id example_chunks)" ..
  note q1 = q [THEN conjunct1]
  note q2 = q [THEN conjunct2, THEN conjunct1]
  note q3 = q [THEN conjunct2, THEN conjunct2, THEN conjunct1]
  note q4 = q [THEN conjunct2, THEN conjunct2, THEN conjunct2, THEN mp, OF h3]
  from q4 m1 m2 have q5: "pi_file_name q = ''report.pdf''" "pi_chunks_count q = 3"
    "pi_total_pages q = 30"
    by simp_all
  have "\<exists>q. get_pdf_by_hash (md5_hexdigest example_lib ''%PDF'') ?d1 = Some q \<and>
        pi_id q = 1 \<and> pi_file_name q = ''report.pdf'' \<and> pi_chunks_count q = 3 \<and>
        pi_total_pages q = 30 \<and>
        process_pdf_with_deduplication example_lib 200 ''later'' [] ?f2 ?d1 =
        Inr (chunk_ranges (pi_total_pages q div pi_chunks_count q) (pi_total_pages q)
               (pi_openai_file_ids q), 1, ?d1)"
    using q1 q2 q3 q5 by (intro exI [of _ q]) simp
  then show ?thesis
    using h1 h2 h3 by simp
qed

text \<open>
  C8. For a page count \<open>P \<ge> 0\<close> that the chunk count \<open>N > 0\<close> divides, and \<open>N\<close>
  stored file ids, the rebuilt chunk list has one chunk per id; chunk \<open>i\<close> runs from
  \<open>i * (P div N) + 1\<close> to \<open>min ((i + 1) * (P div N)) P\<close>; the first chunk starts at
  page 1, the last ends at page \<open>P\<close>, each chunk starts on the page after the one
  before it ends, no two chunks share a page, and together they cover the pages
  \<open>1 .. P\<close>. Both \<open>process_pdf_with_deduplication\<close>, on a hit, and
  \<open>restore_pdf_session_complete\<close> return this list.
\<close>

theorem chunk_ranges_even:
  assumes "0 \<le> P" and "0 < N" and "N dvd P" and "int (length ids) = N"
  shows "length (chunk_ranges (P div N) P ids) = length ids \<and>
         (\<forall>i < length ids.
            chunk_ranges (P div N) P ids ! i =
              \<lparr>ch_file_id = ids ! i, ch_start = int i * (P div N) + 1,
               ch_end = min ((int i + 1) * (P div N)) P\<rparr>) \<and>
         ch_start (chunk_ranges (P div N) P ids ! 0) = 1 \<and>
         ch_end (chunk_ranges (P div N) P ids ! (length ids - 1)) = P \<and>
         (\<forall>i. Suc i < length ids \<longrightarrow>
            ch_start (chunk_ranges (P div N) P ids ! Suc i) =
              ch_end (chunk_ranges (P div N) P ids ! i) + 1) \<and>
         (\<forall>i j. i < j \<and> j < length ids \<longrightarrow>
            {ch_start (chunk_ranges (P div N) P ids ! i) ..
               ch_end (chunk_ranges (P div N) P ids ! i)} \<inter>
            {ch_start (chunk_ranges (P div N) P ids ! j) ..
               ch_end (chunk_ranges (P div N) P ids ! j)} = {}) \<and>
         (\<Union>c \<in> set (chunk_ranges (P div N) P ids). {ch_start c .. ch_end c}) = {1 .. P} \<and>
         (get_pdf_by_hash (md5_hexdigest L (uf_content f)) d = Some p \<and>
          pi_total_pages p = P \<and> pi_chunks_count p = N \<and> pi_openai_file_ids p = ids \<longrightarrow>
            process_pdf_with_deduplication L now sid split f d =
              Inr (chunk_ranges (P div N) P ids, pi_id p, d)) \<and>
         (find (\<lambda>r. ph_id r = pid \<and> ph_status r = ''processed'') (pdf_history d') = Some row \<and>
          ph_total_pages row = P \<and> ph_chunks_count row = N \<and> ph_openai_file_ids row = ids \<longrightarrow>
            restore_pdf_session_complete pid d' =
              Some (chunk_ranges (P div N) P ids, ph_file_name row, pid))"
proof -
  let ?k = "P div N"
  let ?n = "length ids"
  let ?cs = "chunk_ranges ?k P ids"
  have k: "0 \<le> ?k" and P: "int ?n * ?k = P"
    using even_split [OF assms(1-3)] assms(4) by simp_all
  have n: "0 < ?n" using assms(2,4) by auto
  have end_le: "(int i + 1) * ?k \<le> P" if "i < ?n" for i
    using block_end_le [OF k that] P by simp
  have nth: "?cs ! i = \<lparr>ch_file_id = ids ! i, ch_start = int i * ?k + 1,
                          ch_end = (int i + 1) * ?k\<rparr>" if "i < ?n" for i
    using nth_chunk_ranges [OF that, of ?k P] end_le [OF that] by (simp add: min_def)
  have c1: "length ?cs = ?n" by (rule length_chunk_ranges)
  have c2: "\<forall>i < ?n. ?cs ! i = \<lparr>ch_file_id = ids ! i, ch_start = int i * ?k + 1,
                                   ch_end = min ((int i + 1) * ?k) P\<rparr>"
    by (simp add: nth_chunk_ranges)
  have c3: "ch_start (?cs ! 0) = 1" using nth [OF n] by simp
  have "int (?n - 1) + 1 = int ?n" using n by (cases ids) simp_all
  then have c4: "ch_end (?cs ! (?n - 1)) = P"
    using nth [of "?n - 1"] n P by simp
  have c5: "\<forall>i. Suc i < ?n \<longrightarrow> ch_start (?cs ! Suc i) = ch_end (?cs ! i) + 1"
    by (simp add: nth algebra_simps)
  have c6: "\<forall>i j. i < j \<and> j < ?n \<longrightarrow>
              {ch_start (?cs ! i) .. ch_end (?cs ! i)} \<inter>
              {ch_start (?cs ! j) .. ch_end (?cs ! j)} = {}"
  proof (intro allI impI)
    fix i j assume ij: "i < j \<and> j < ?n"
    then have "(int i + 1) * ?k \<le> int j * ?k"
      using block_end_le [OF k, of i j] by simp
    then show "{ch_start (?cs ! i) .. ch_end (?cs ! i)} \<inter>
               {ch_start (?cs ! j) .. ch_end (?cs ! j)} = {}"
      using ij by (auto simp: nth)
  qed
  have "(\<Union>c \<in> set ?cs. {ch_start c .. ch_end c})
          = (\<Union>i<?n. {ch_start (?cs ! i) .. ch_end (?cs ! i)})"
    by (subst set_chunk_ranges) simp
  also have "\<dots> = (\<Union>i<?n. {int i * ?k + 1 .. (int i + 1) * ?k})"
    by (simp add: nth)
  also have "\<dots> = {1 .. P}"
    using union_blocks [OF k, of ?n] P by simp
  finally have c7: "(\<Union>c \<in> set ?cs. {ch_start c .. ch_end c}) = {1 .. P}" .
  have c8: "get_pdf_by_hash (md5_hexdigest L (uf_content f)) d = Some p \<and>
            pi_total_pages p = P \<and> pi_chunks_count p = N \<and> pi_openai_file_ids p = ids \<longrightarrow>
              process_pdf_with_deduplication L now sid split f d =
                Inr (chunk_ranges (P div N) P ids, pi_id p, d)"
    using assms(2) dedup_hit [of L f d p now sid split] by auto
  have c9: "find (\<lambda>r. ph_id r = pid \<and> ph_status r = ''processed'') (pdf_history d') = Some row \<and>
            ph_total_pages row = P \<and> ph_chunks_count row = N \<and> ph_openai_file_ids row = ids \<longrightarrow>
              restore_pdf_session_complete pid d' =
                Some (chunk_ranges (P div N) P ids, ph_file_name row, pid)"
    using assms(2) restore_hit [of pid d' row] by auto
  show ?thesis
    using c1 c2 c3 c4 c5 c6 c7 c8 c9 by blast
qed

theorem chunk_ranges_even_witness:
  "(0::int) \<le> 30 \<and> (0::int) < 3 \<and> (3::int) dvd 30 \<and> int (length example_ids) = 3 \<and>
   chunk_ranges (30 div 3) 30 example_ids =
     [\<lparr>ch_file_id = ''file-a'', ch_start = 1, ch_end = 10\<rparr>,
      \<lparr>ch_file_id = ''file-b'', ch_start = 11, ch_end = 20\<rparr>,
      \<lparr>ch_file_id = ''file-c'', ch_start = 21, ch_end = 30\<rparr>] \<and>
   (\<Union>c \<in> set (chunk_ranges (30 div 3) 30 example_ids). {ch_start c .. ch_end c}) = {1 .. 30} \<and>
   process_pdf_with_deduplication example_lib 200 ''session'' []
       \<lparr>uf_name = ''copy.pdf'', uf_content = ''%PDF''\<rparr> example_pdf_db =
     Inr (chunk_ranges (30 div 3) 30 example_ids, 1, example_pdf_db) \<and>
   restore_pdf_session_complete 1 example_pdf_db =
     Some (chunk_ranges (30 div 3) 30 example_ids, ''report.pdf'', 1)"
proof -
  let ?row = "\<lparr>ph_id = 1, ph_file_name = ''report.pdf'', ph_file_hash = ''%PDF'', ph_file_size = 4,
       ph_total_pages = 30, ph_chunks_count = 3, ph_openai_file_ids = example_ids,
       ph_processed_at = 100, ph_status = ''processed''\<rparr>"
  let ?p = "\<lparr>pi_id = 1, pi_file_name = ''report.pdf'', pi_total_pages = 30,
       pi_chunks_count = 3, pi_openai_file_ids = example_ids, pi_processed_at = 100\<rparr>"
  have h1: "(0::int) \<le> 30" by simp
  have h2: "(0::int) < 3" by simp
  have h3: "(3::int) dvd 30" by simp
  have h4: "int (length example_ids) = 3" by (simp add: example_ids_def)
  have g: "get_pdf_by_hash (md5_hexdigest example_lib
             (uf_content \<lparr>uf_name = ''copy.pdf'', uf_content = ''%PDF''\<rparr>)) example_pdf_db = Some ?p"
    by (simp add: get_pdf_by_hash_def example_pdf_db_eval processed_with_hash_def example_lib_def)
  have r: "find (\<lambda>r. ph_id r = 1 \<and> ph_status r = ''processed'') (pdf_history example_pdf_db)
             = Some ?row"
    by (simp add: example_pdf_db_eval)
  have e: "chunk_ranges (30 div 3) 30 example_ids =
     [\<lparr>ch_file_id = ''file-a'', ch_start = 1, ch_end = 10\<rparr>,
      \<lparr>ch_file_id = ''file-b'', ch_start = 11, ch_end = 20\<rparr>,
      \<lparr>ch_file_id = ''file-c'', ch_start = 21, ch_end = 30\<rparr>]"
    by (simp add: chunk_ranges_def example_ids_def)
  show ?thesis
    using chunk_ranges_even [OF h1 h2 h3 h4, where L = example_lib
        and f = "\<lparr>uf_name = ''copy.pdf'', uf_content = ''%PDF''\<rparr>" and d = example_pdf_db
        and p = ?p and now = 200 and sid = "''session''" and split = "[]"
        and pid = 1 and d' = example_pdf_db and row = ?row]
      h4 g r e
    by simp
qed

text \<open>
  C9. The Everything scope of the bulk delete does not empty \<open>usage_analytics\<close>:
  with one logged event in the database, the statistics after the deletion count one
  row in that table.
\<close>

theorem bulk_delete_everything_counterexample:
  "usage_analytics_count
     (get_database_stats
        (snd (bulk_delete_execute Everything ((\<lambda>_. False)(Everything := True))
           (log_event example_lib 1000 ''market_analysis'' None (Some ''session'')
              init_database)))) = 1"
  by (simp add: get_database_stats_def bulk_delete_execute_def log_event_def init_database_def
        Let_def)

text \<open>
  C9, as the code has it. After the Everything scope of the bulk delete (two clicks on
  Execute, the first of which only arms the deletion) the statistics count no row in
  \<open>market_cache\<close>, \<open>pdf_history\<close>, \<open>pdf_qa\<close> and \<open>ma_searches\<close>, and as many rows in
  \<open>usage_analytics\<close> as before. After RESET ALL DATA they count no row in any of the
  five tables.
\<close>

theorem bulk_delete_everything_stats:
  "get_database_stats (bulk_delete Everything d) =
     \<lparr>market_cache_count = 0, pdf_history_count = 0, pdf_qa_count = 0,
      ma_searches_count = 0, usage_analytics_count = length (usage_analytics d)\<rparr> \<and>
   snd (bulk_delete_execute Everything
          (fst (bulk_delete_execute Everything (\<lambda>_. False) d))
          (snd (bulk_delete_execute Everything (\<lambda>_. False) d))) = bulk_delete Everything d \<and>
   get_database_stats (snd (reset_all_data True d)) =
     \<lparr>market_cache_count = 0, pdf_history_count = 0, pdf_qa_count = 0,
      ma_searches_count = 0, usage_analytics_count = 0\<rparr>"
  by (simp add: get_database_stats_def bulk_delete_execute_def reset_all_data_def)

text \<open>
  C10. \<open>cache_result\<close> stores \<open>str(result_data)\<close>, and \<open>get_cached_result\<close> returns
  that string: the value read equals the value written exactly when the value written
  is a string.
\<close>

theorem cache_stores_str:
  assumes "0 < ttl" and "now' < now + 3600 * ttl"
  shows "(\<exists>r. rows_with_hash (generate_query_hash L m q kw)
                (cache_result L now m q v src (Some ttl) kw d) = [r]
              \<and> mc_result_data r = py_str v) \<and>
         (\<exists>c. get_cached_result L now' m q kw (cache_result L now m q v src (Some ttl) kw d)
                = (Some c, cache_result L now m q v src (Some ttl) kw d)
              \<and> data c = py_str v
              \<and> (PyStr (data c) = v \<longleftrightarrow> (\<exists>s. v = PyStr s)))"
proof -
  have "live now' (new_cache_row L now m q v src (Some ttl) kw d)"
    using assms by (simp add: live_new_cache_row datetime_plus_hours_def)
  moreover have "PyStr (py_str v) = v \<longleftrightarrow> (\<exists>s. v = PyStr s)"
    by (cases v) auto
  ultimately show ?thesis
    by (simp add: get_after_put rows_with_hash_cache_result)
       (simp add: new_cache_row_def)
qed

theorem cache_stores_str_witness:
  "(0::int) < 24 \<and> (1000::int) < 1000 + 3600 * 24 \<and>
   get_cached_result example_lib 1000 ''EV Batteries'' ''global'' []
     (cache_result example_lib 1000 ''EV Batteries'' ''global'' (PyInt 42) None (Some 24) []
        init_database)
   = (Some \<lparr>data = ''42'', cached_at = 1000, expires_at = Some 87400\<rparr>,
      cache_result example_lib 1000 ''EV Batteries'' ''global'' (PyInt 42) None (Some 24) []
        init_database)"
proof -
  have h1: "(0::int) < 24" by simp
  have h2: "(1000::int) < 1000 + 3600 * 24" by simp
  have s: "py_str (PyInt 42) = ''42''" by (simp add: str_nat.simps)
  obtain c where
    "get_cached_result example_lib 1000 ''EV Batteries'' ''global'' []
       (cache_result example_lib 1000 ''EV Batteries'' ''global'' (PyInt 42) None (Some 24) []
          init_database)
     = (Some c, cache_result example_lib 1000 ''EV Batteries'' ''global'' (PyInt 42) None
          (Some 24) [] init_database)"
    and "data c = py_str (PyInt 42)"
    using cache_stores_str [OF h1 h2, of example_lib "''EV Batteries''" "''global''" "[]"
        "PyInt 42" None init_database]
    by blast
  then show ?thesis
    using h1 h2 s
    by (simp add: get_after_put datetime_plus_hours_def sqlite_max_datetime_def
          split: if_splits)
qed

end
